theory Spec2Isabelle
  imports Main "HOL-Library.AList"
begin

section \<open>Data model of the submission records\<close>

text \<open>
  The command-line tool \<^verbatim>\<open>util_cli.py\<close> reads the list of serialized
  \<^verbatim>\<open>SubmissionEntry\<close> messages stored under the key \<^verbatim>\<open>submissions\<close> and either
  summarises them (\<^verbatim>\<open>read_submissions\<close>) or exports them into a directory tree
  (\<^verbatim>\<open>extract_povs\<close>). The message classes come from \<^verbatim>\<open>msg_pb2\<close>; the records below
  carry the fields the tool reads, with the nesting the tool's attribute paths show
  (\<^verbatim>\<open>crash_with_id.crash.crash.stacktrace\<close>, \<^verbatim>\<open>crash_with_id.crash.tracer_stacktrace\<close>).
  Where two messages have a field of the same name, the record field carries a prefix:
  \<^verbatim>\<open>target.task_id\<close> is \<open>target_task_id\<close>, the \<^verbatim>\<open>crash\<close> field of the traced crash
  is \<open>traced_crash\<close>, and the two \<^verbatim>\<open>result\<close> fields are \<open>crash_result\<close> and
  \<open>patch_result\<close>.

  Python strings are modelled as \<^typ>\<open>string\<close>; one element stands for one character
  of the Python string, so \<^const>\<open>length\<close> is Python's \<^verbatim>\<open>len\<close>.
\<close>

text \<open>
  Modelled from the spec: the enumeration \<^verbatim>\<open>SubmissionResult\<close> of \<^verbatim>\<open>msg_pb2\<close> is
  not part of the sources; the spec gives \<^verbatim>\<open>result \<in> {NONE, PASSED, FAILED}\<close>. \<open>NONE\<close>
  is the default value, the only one that is false in a Python condition.
\<close>

datatype SubmissionResult = NONE | PASSED | FAILED

record BuildTarget =
  target_task_id :: string
  sanitizer :: string
  engine :: string

record Crash =
  target :: BuildTarget
  harness_name :: string
  crash_input_path :: string
  stacktrace :: string
  crash_token :: string

record TracedCrash =
  traced_crash :: Crash
  tracer_stacktrace :: string

record CrashWithId =
  crash :: TracedCrash
  competition_pov_id :: string
  crash_result :: SubmissionResult

record SubmissionPatch =
  internal_patch_id :: string
  competition_patch_id :: string
  patch :: string
  patch_result :: SubmissionResult

text \<open>
  Modelled from the spec: the message \<^verbatim>\<open>Bundle\<close> of \<^verbatim>\<open>msg_pb2\<close> is not part of the
  sources and the tool never looks inside one; the spec calls bundles opaque grouping
  records.
\<close>

datatype Bundle = Bundle string

record SubmissionEntry =
  crashes :: "CrashWithId list"
  patches :: "SubmissionPatch list"
  bundles :: "Bundle list"
  patch_idx :: nat
  stop :: bool

section \<open>Display truncation\<close>

text \<open>Python's \<^verbatim>\<open>s[:n]\<close>: a negative \<open>n\<close> counts from the end.\<close>

definition py_slice_to :: "int \<Rightarrow> 'a list \<Rightarrow> 'a list" where
  "py_slice_to n s =
     (if 0 \<le> n then take (nat n) s else take (nat (int (length s) + n)) s)"

text \<open>
  The statement that \<^verbatim>\<open>truncate_stacktraces\<close> applies to three fields:
  \<^verbatim>\<open>if f and len(f) > max_length: f = f[:max_length] + "... (truncated)"\<close>.
\<close>

definition truncate_field :: "int \<Rightarrow> string \<Rightarrow> string" where
  "truncate_field max_length f =
     (if f \<noteq> [] \<and> max_length < int (length f)
      then py_slice_to max_length f @ ''... (truncated)''
      else f)"

text \<open>The body of the loop over the crashes, in the order of the source.\<close>

definition truncate_crash :: "int \<Rightarrow> CrashWithId \<Rightarrow> CrashWithId" where
  "truncate_crash max_length crash_with_id =
     (let c0 = crash crash_with_id;
          c1 = c0\<lparr>traced_crash := (traced_crash c0)
                 \<lparr>stacktrace := truncate_field max_length (stacktrace (traced_crash c0))\<rparr>\<rparr>;
          c2 = c1\<lparr>tracer_stacktrace := truncate_field max_length (tracer_stacktrace c1)\<rparr>;
          c3 = c2\<lparr>traced_crash := (traced_crash c2)
                 \<lparr>crash_token := truncate_field max_length (crash_token (traced_crash c2))\<rparr>\<rparr>
      in crash_with_id\<lparr>crash := c3\<rparr>)"

text \<open>
  \<^verbatim>\<open>truncate_stacktraces\<close> on values: the copy made by printing the message as text
  and parsing it back has the fields of its input; the loop then edits the copy.
\<close>

definition truncate_stacktraces :: "SubmissionEntry \<Rightarrow> int \<Rightarrow> SubmissionEntry" where
  "truncate_stacktraces submission max_length =
     (let truncated_submission = submission
      in truncated_submission
           \<lparr>crashes := map (truncate_crash max_length) (crashes truncated_submission)\<rparr>)"

text \<open>
  The same function on references, to speak about what it leaves alone. A store is the
  list of the message objects alive, an object's reference is its index. The function
  allocates the copy at the first free index and the loop assigns to the fields of the
  crashes of that object, one crash after the other. A reference outside the store has
  no object, and the result is \<open>None\<close>.
\<close>

type_synonym store = "SubmissionEntry list"

fun truncate_in_place :: "int \<Rightarrow> nat \<Rightarrow> nat list \<Rightarrow> store \<Rightarrow> store" where
  "truncate_in_place max_length r [] h = h"
| "truncate_in_place max_length r (i # rest) h =
     truncate_in_place max_length r rest
       (h[r := (h ! r)\<lparr>crashes := (crashes (h ! r))
                 [i := truncate_crash max_length (crashes (h ! r) ! i)]\<rparr>])"

definition truncate_stacktraces_ref :: "store \<Rightarrow> nat \<Rightarrow> int \<Rightarrow> (store \<times> nat) option" where
  "truncate_stacktraces_ref h submission max_length =
     (if submission < length h
      then let truncated_submission = length h;
               h1 = h @ [h ! submission]
           in Some (truncate_in_place max_length truncated_submission
                      [0..<length (crashes (h1 ! truncated_submission))] h1,
                    truncated_submission)
      else None)"

section \<open>Shared pieces of the two scans\<close>

text \<open>
  The exceptions the per-record \<^verbatim>\<open>try\<close> blocks catch: \<^verbatim>\<open>FromString\<close> failing to
  decode, \<^verbatim>\<open>submission.crashes[0]\<close> on an empty list, the \<^verbatim>\<open>assert\<close> of
  \<^verbatim>\<open>read_submissions\<close>, and a file operation of \<^verbatim>\<open>extract_povs\<close> failing.
\<close>

datatype error = DecodeError | IndexError | AssertionError | OSError

text \<open>
  What \<^verbatim>\<open>TaskRegistry.get\<close> returns is a task or \<^verbatim>\<open>None\<close>; the tool reads the
  project name and the task type, an enumeration number that \<^verbatim>\<open>str\<close> prints in
  decimal.
\<close>

record Task =
  task_project_name :: string
  task_type :: nat

fun str_nat :: "nat \<Rightarrow> string" where
  "str_nat n =
     (if n < 10 then [''0123456789'' ! n]
      else str_nat (n div 10) @ [''0123456789'' ! (n mod 10)])"

declare str_nat.simps [simp del]

text \<open>The format \<^verbatim>\<open>{n:03d}\<close>: decimal, padded with zeros to three digits.\<close>

definition fmt03d :: "nat \<Rightarrow> string" where
  "fmt03d n = (let s = str_nat n in replicate (3 - length s) (CHR ''0'') @ s)"

text \<open>
  Log records and printed blocks are kept as values, the message template as the
  constructor and the interpolated values as its arguments, in the order they are
  emitted. \<open>PrintSubmission\<close> is the header line with the index followed by the printed
  message; \<open>PrintTotals\<close>, \<open>PrintTask\<close> and \<open>PrintNonPatched\<close> are the blocks of the
  summary.
\<close>

datatype level = DEBUG | INFO | ERROR

datatype message =
    NoSubmissionsFound
  | FoundSubmissions nat
  | SkippingStopped nat
  | TaskNotFound string
  | SkippingTaskNot nat string string
  | FailedToParse nat error
  | Done
  | NoPodFound string string
  | UsingPod string
  | FoundExtracting nat string
  | SkippingNoCrashes nat
  | SkippingTask nat string
  | SkippingNoPassed nat
  | Extracted nat string string nat nat
  | FailedToProcess nat error
  | ExtractionComplete nat nat
  | PovFiles nat nat
  | TaskVulnerabilities string nat

record TaskResult =
  task_id :: string
  project_name :: string
  mode :: string
  n_vulnerabilities :: nat
  n_patches :: nat
  n_bundles :: nat
  patched_vulnerabilities :: "string list"
  non_patched_vulnerabilities :: "string list"

datatype event =
    Log level message
  | PrintSubmission nat SubmissionEntry
  | PrintTotals nat nat nat
  | PrintTask TaskResult
  | PrintNonPatched "(string \<times> string \<times> string) list"

text \<open>
  \<^verbatim>\<open>next((c for c in submission.crashes if c.result == PASSED), None)\<close> and its twin
  on the patches are \<^const>\<open>List.find\<close>. A message object is true in a condition, so
  \<^verbatim>\<open>if c:\<close> asks whether one was found.
\<close>

definition first_passed_crash :: "SubmissionEntry \<Rightarrow> CrashWithId option" where
  "first_passed_crash submission =
     List.find (\<lambda>c. crash_result c = PASSED) (crashes submission)"

definition first_passed_patch :: "SubmissionEntry \<Rightarrow> SubmissionPatch option" where
  "first_passed_patch submission =
     List.find (\<lambda>p. patch_result p = PASSED) (patches submission)"

section \<open>read\_submissions\<close>

record ReadSubmissionsSettings =
  rs_task_id :: string
  verbose :: bool
  filter_stop :: bool

text \<open>
  The state of the scan: the dictionary \<^verbatim>\<open>result\<close>, in insertion order, and what has
  been logged and printed so far.
\<close>

record rs_state =
  result :: "(string \<times> TaskResult) list"
  out :: "event list"

definition emit :: "event \<Rightarrow> rs_state \<Rightarrow> rs_state" where
  "emit e st = st\<lparr>out := out st @ [e]\<rparr>"

definition new_TaskResult :: "string \<Rightarrow> Task \<Rightarrow> TaskResult" where
  "new_TaskResult tid task =
     \<lparr>task_id = tid, project_name = task_project_name task,
      mode = str_nat (task_type task),
      n_vulnerabilities = 0, n_patches = 0, n_bundles = 0,
      patched_vulnerabilities = [], non_patched_vulnerabilities = []\<rparr>"

text \<open>
  The counting statements on \<^verbatim>\<open>result[task_id]\<close>, from the search for a PASSED crash
  to the bundle count. The patch count is incremented before the \<^verbatim>\<open>assert\<close>, so
  the task result returned with \<open>AssertionError\<close> already carries it.
\<close>

definition count_bundles :: "SubmissionEntry \<Rightarrow> TaskResult \<Rightarrow> TaskResult" where
  "count_bundles submission tr =
     (if bundles submission \<noteq> [] then tr\<lparr>n_bundles := n_bundles tr + 1\<rparr> else tr)"

definition count_submission ::
  "SubmissionEntry \<Rightarrow> TaskResult \<Rightarrow> error option \<times> TaskResult" where
  "count_submission submission tr =
     (let c = first_passed_crash submission;
          tr1 = (if c \<noteq> None then tr\<lparr>n_vulnerabilities := n_vulnerabilities tr + 1\<rparr>
                 else tr);
          p = first_passed_patch submission
      in case p of
           Some _ \<Rightarrow>
             (let tr2 = tr1\<lparr>n_patches := n_patches tr1 + 1\<rparr>
              in case c of
                   None \<Rightarrow> (Some AssertionError, tr2)
                 | Some c' \<Rightarrow>
                     (None, count_bundles submission
                              (tr2\<lparr>patched_vulnerabilities :=
                                     patched_vulnerabilities tr2 @ [competition_pov_id c']\<rparr>)))
         | None \<Rightarrow>
             (case c of
                Some c' \<Rightarrow>
                  (None, count_bundles submission
                           (tr1\<lparr>non_patched_vulnerabilities :=
                                  non_patched_vulnerabilities tr1 @ [competition_pov_id c']\<rparr>))
              | None \<Rightarrow> (None, count_bundles submission tr1)))"

text \<open>
  The body of the \<^verbatim>\<open>try\<close> block for a decoded record: \<open>Some e\<close> with the state at
  the moment of the raise, or \<open>None\<close> with the state at the end of the body or at its
  \<^verbatim>\<open>continue\<close>. \<open>registry\<close> is \<^verbatim>\<open>TaskRegistry.get\<close>.
\<close>

definition read_submission_entry ::
  "ReadSubmissionsSettings \<Rightarrow> (string \<Rightarrow> Task option) \<Rightarrow> nat \<Rightarrow> SubmissionEntry
     \<Rightarrow> rs_state \<Rightarrow> error option \<times> rs_state" where
  "read_submission_entry command registry i decoded st =
     (let submission = (if \<not> verbose command then truncate_stacktraces decoded 80
                        else decoded)
      in if filter_stop command \<and> stop submission
         then (None, emit (Log INFO (SkippingStopped i)) st)
         else case crashes submission of
           [] \<Rightarrow> (Some IndexError, st)
         | c0 # _ \<Rightarrow>
           (let tid = target_task_id (target (traced_crash (crash c0)))
            in case registry tid of
                 None \<Rightarrow> (None, emit (Log ERROR (TaskNotFound tid)) st)
               | Some task \<Rightarrow>
                 if rs_task_id command \<noteq> [] \<and> tid \<noteq> rs_task_id command
                 then (None, emit (Log INFO (SkippingTaskNot i tid (rs_task_id command))) st)
                 else
                   (let tr0 = (case map_of (result st) tid of
                                 None \<Rightarrow> new_TaskResult tid task
                               | Some tr \<Rightarrow> tr)
                    in case count_submission submission tr0 of
                         (Some e, tr) \<Rightarrow>
                           (Some e, st\<lparr>result := AList.update tid tr (result st)\<rparr>)
                       | (None, tr) \<Rightarrow>
                           (None, emit (PrintSubmission i submission)
                                    (st\<lparr>result := AList.update tid tr (result st)\<rparr>)))))"

text \<open>\<open>FromString\<close> is \<^verbatim>\<open>SubmissionEntry.FromString\<close>, \<open>None\<close> where it raises.\<close>

definition read_submission_body ::
  "ReadSubmissionsSettings \<Rightarrow> ('raw \<Rightarrow> SubmissionEntry option) \<Rightarrow> (string \<Rightarrow> Task option)
     \<Rightarrow> nat \<Rightarrow> 'raw \<Rightarrow> rs_state \<Rightarrow> error option \<times> rs_state" where
  "read_submission_body command FromString registry i raw st =
     (case FromString raw of
        None \<Rightarrow> (Some DecodeError, st)
      | Some decoded \<Rightarrow> read_submission_entry command registry i decoded st)"

text \<open>One turn of the loop: the body, and the \<^verbatim>\<open>except\<close> clause that logs and goes on.\<close>

definition read_submission_step ::
  "ReadSubmissionsSettings \<Rightarrow> ('raw \<Rightarrow> SubmissionEntry option) \<Rightarrow> (string \<Rightarrow> Task option)
     \<Rightarrow> nat \<Rightarrow> 'raw \<Rightarrow> rs_state \<Rightarrow> rs_state" where
  "read_submission_step command FromString registry i raw st =
     (case read_submission_body command FromString registry i raw st of
        (Some e, st') \<Rightarrow> emit (Log ERROR (FailedToParse i e)) st'
      | (None, st') \<Rightarrow> st')"

fun read_submissions_loop ::
  "ReadSubmissionsSettings \<Rightarrow> ('raw \<Rightarrow> SubmissionEntry option) \<Rightarrow> (string \<Rightarrow> Task option)
     \<Rightarrow> nat \<Rightarrow> 'raw list \<Rightarrow> rs_state \<Rightarrow> rs_state" where
  "read_submissions_loop command FromString registry i [] st = st"
| "read_submissions_loop command FromString registry i (raw # rest) st =
     read_submissions_loop command FromString registry (Suc i) rest
       (read_submission_step command FromString registry i raw st)"

definition all_non_patched :: "(string \<times> TaskResult) list \<Rightarrow> (string \<times> string \<times> string) list" where
  "all_non_patched res =
     concat (map (\<lambda>(tid, tr). map (\<lambda>vuln_id. (project_name tr, task_id tr, vuln_id))
                                  (non_patched_vulnerabilities tr)) res)"

text \<open>
  The whole command on the stored list \<^verbatim>\<open>raw_submissions\<close>: the final dictionary and
  everything logged and printed.
\<close>

definition read_submissions ::
  "ReadSubmissionsSettings \<Rightarrow> ('raw \<Rightarrow> SubmissionEntry option) \<Rightarrow> (string \<Rightarrow> Task option)
     \<Rightarrow> 'raw list \<Rightarrow> rs_state" where
  "read_submissions command FromString registry raw_submissions =
     (if raw_submissions = [] then \<lparr>result = [], out = [Log INFO NoSubmissionsFound]\<rparr>
      else
        let st = read_submissions_loop command FromString registry 0 raw_submissions
                   \<lparr>result = [], out = [Log INFO (FoundSubmissions (length raw_submissions))]\<rparr>;
            trs = map snd (result st);
            total_vulnerabilities = sum_list (map n_vulnerabilities trs);
            total_patches = sum_list (map n_patches trs);
            total_task_vuln = length (filter (\<lambda>tr. 0 < n_vulnerabilities tr) trs)
        in st\<lparr>out := out st
                   @ [PrintTotals total_vulnerabilities total_patches total_task_vuln]
                   @ map PrintTask trs
                   @ [PrintNonPatched (all_non_patched (result st)), Log INFO Done]\<rparr>)"

section \<open>extract\_povs\<close>

text \<open>
  The export works on \<^verbatim>\<open>pathlib\<close> paths and on the local file system, which are not
  part of the tool. They are taken as given: \<open>'p\<close> is the type of paths, \<open>join\<close> is the
  operator \<^verbatim>\<open>/\<close> of \<^verbatim>\<open>pathlib\<close>, \<open>path_str\<close> is \<^verbatim>\<open>str\<close> on a path, \<open>fails\<close> tells
  whether a file operation raises \<^verbatim>\<open>OSError\<close> after the operations done so far, and
  \<open>kubectl_cp\<close> is the function of that name (namespace, pod, remote path, local path),
  which catches what it raises and returns whether the copy succeeded.
\<close>

datatype json = JString string | JNumber nat | JBool bool

text \<open>
  What the export does to the local file system, in order: \<^verbatim>\<open>mkdir\<close>, the
  \<^verbatim>\<open>write_text\<close> of a text, the \<^verbatim>\<open>write_text\<close> of a dictionary dumped as JSON, and a
  \<^verbatim>\<open>kubectl cp\<close> that succeeded.
\<close>

datatype 'p fs_op =
    Mkdir 'p
  | WriteText 'p string
  | WriteJson 'p "(string \<times> json) list"
  | Copied string 'p

record 'p platform =
  join :: "'p \<Rightarrow> string \<Rightarrow> 'p"
  path_str :: "'p \<Rightarrow> string"
  fails :: "'p fs_op list \<Rightarrow> 'p fs_op \<Rightarrow> bool"
  kubectl_cp :: "string \<Rightarrow> string \<Rightarrow> string \<Rightarrow> 'p \<Rightarrow> bool"

text \<open>\<open>output_dir\<close> is the resolved output directory.\<close>

record 'p ExtractPovsSettings =
  output_dir :: 'p
  ep_task_id :: string
  passed_only :: bool
  namespace :: string
  pod_label :: string

text \<open>
  The state of the export: the dictionary \<^verbatim>\<open>vuln_counter\<close> in insertion order, the two
  entries of \<^verbatim>\<open>stats\<close>, the file operations done and the log.
\<close>

record 'p ep_state =
  vuln_counter :: "(string \<times> nat) list"
  povs_copied :: nat
  povs_failed :: nat
  fs :: "'p fs_op list"
  log :: "event list"

definition ep_log :: "level \<Rightarrow> message \<Rightarrow> 'p ep_state \<Rightarrow> 'p ep_state" where
  "ep_log l m st = st\<lparr>log := log st @ [Log l m]\<rparr>"

text \<open>
  A statement either completes or raises; the state it returns is the state when it
  completed or raised. \<open>fs_do\<close> is one file operation, \<open>and_then\<close> runs the rest of a
  block after a statement that completed.
\<close>

definition fs_do :: "'p platform \<Rightarrow> 'p fs_op \<Rightarrow> 'p ep_state \<Rightarrow> error option \<times> 'p ep_state" where
  "fs_do w op st =
     (if fails w (fs st) op then (Some OSError, st) else (None, st\<lparr>fs := fs st @ [op]\<rparr>))"

definition and_then ::
  "error option \<times> 'p ep_state \<Rightarrow> ('p ep_state \<Rightarrow> error option \<times> 'p ep_state)
     \<Rightarrow> error option \<times> 'p ep_state" where
  "and_then r f = (case r of (None, st) \<Rightarrow> f st | (Some e, st) \<Rightarrow> (Some e, st))"

text \<open>\<^verbatim>\<open>SubmissionResult.Name(r) if r else "NONE"\<close>.\<close>

fun result_name :: "SubmissionResult \<Rightarrow> string" where
  "result_name NONE = ''NONE''"
| "result_name PASSED = ''PASSED''"
| "result_name FAILED = ''FAILED''"

definition crash_metadata :: "CrashWithId \<Rightarrow> (string \<times> json) list" where
  "crash_metadata crash_with_id =
     [(''competition_pov_id'', JString (competition_pov_id crash_with_id)),
      (''result'', JString (result_name (crash_result crash_with_id))),
      (''harness_name'', JString (harness_name (traced_crash (crash crash_with_id)))),
      (''crash_token'', JString (crash_token (traced_crash (crash crash_with_id)))),
      (''crash_input_path'', JString (crash_input_path (traced_crash (crash crash_with_id)))),
      (''sanitizer'', JString (sanitizer (target (traced_crash (crash crash_with_id))))),
      (''engine'', JString (engine (target (traced_crash (crash crash_with_id)))))]"

text \<open>The body of the loop over the crashes, for the crash numbered \<open>crash_idx\<close>.\<close>

definition extract_crash ::
  "'p platform \<Rightarrow> string \<Rightarrow> string \<Rightarrow> 'p \<Rightarrow> nat \<Rightarrow> CrashWithId \<Rightarrow> 'p ep_state
     \<Rightarrow> error option \<times> 'p ep_state" where
  "extract_crash w ns pod_name crashes_dir crash_idx crash_with_id st =
     (let c = crash crash_with_id;
          crash_dir = join w crashes_dir (''crash_'' @ fmt03d crash_idx);
          pov_remote_path = crash_input_path (traced_crash c);
          pov_local_path = join w crash_dir ''pov.bin''
      in and_then (fs_do w (Mkdir crash_dir) st) (\<lambda>st1.
         and_then
           (if kubectl_cp w ns pod_name pov_remote_path pov_local_path
            then (None, st1\<lparr>povs_copied := povs_copied st1 + 1,
                             fs := fs st1 @ [Copied pov_remote_path pov_local_path]\<rparr>)
            else fs_do w (WriteText (join w crash_dir ''pov_path.txt'') pov_remote_path)
                   (st1\<lparr>povs_failed := povs_failed st1 + 1\<rparr>)) (\<lambda>st2.
         and_then
           (if stacktrace (traced_crash c) \<noteq> []
            then fs_do w (WriteText (join w crash_dir ''stacktrace.txt'')
                            (stacktrace (traced_crash c))) st2
            else (None, st2)) (\<lambda>st3.
         and_then
           (if tracer_stacktrace c \<noteq> []
            then fs_do w (WriteText (join w crash_dir ''tracer_stacktrace.txt'')
                            (tracer_stacktrace c)) st3
            else (None, st3)) (\<lambda>st4.
         fs_do w (WriteJson (join w crash_dir ''metadata.json'')
                    (crash_metadata crash_with_id)) st4)))))"

fun extract_crashes ::
  "'p platform \<Rightarrow> string \<Rightarrow> string \<Rightarrow> 'p \<Rightarrow> nat \<Rightarrow> CrashWithId list \<Rightarrow> 'p ep_state
     \<Rightarrow> error option \<times> 'p ep_state" where
  "extract_crashes w ns pod_name crashes_dir crash_idx [] st = (None, st)"
| "extract_crashes w ns pod_name crashes_dir crash_idx (crash_with_id # rest) st =
     and_then (extract_crash w ns pod_name crashes_dir crash_idx crash_with_id st)
       (extract_crashes w ns pod_name crashes_dir (Suc crash_idx) rest)"

definition patch_metadata :: "SubmissionPatch \<Rightarrow> (string \<times> json) list" where
  "patch_metadata patch_entry =
     [(''internal_patch_id'', JString (internal_patch_id patch_entry)),
      (''competition_patch_id'', JString (competition_patch_id patch_entry)),
      (''result'', JString (result_name (patch_result patch_entry)))]"

text \<open>
  The loop over the patches, from the counter \<open>patch_num\<close>: what was raised, the
  counter and the state. An entry whose \<^verbatim>\<open>patch\<close> is empty takes the \<^verbatim>\<open>continue\<close>.
\<close>

fun extract_patches ::
  "'p platform \<Rightarrow> 'p \<Rightarrow> nat \<Rightarrow> SubmissionPatch list \<Rightarrow> 'p ep_state
     \<Rightarrow> error option \<times> nat \<times> 'p ep_state" where
  "extract_patches w patches_dir patch_num [] st = (None, patch_num, st)"
| "extract_patches w patches_dir patch_num (patch_entry # rest) st =
     (if patch patch_entry = [] then extract_patches w patches_dir patch_num rest st
      else
        case fs_do w (WriteText (join w patches_dir
                                   (''patch_'' @ fmt03d (patch_num + 1) @ ''.patch''))
                        (patch patch_entry)) st of
          (Some e, st1) \<Rightarrow> (Some e, patch_num + 1, st1)
        | (None, st1) \<Rightarrow>
            (case fs_do w (WriteJson (join w patches_dir
                                        (''patch_'' @ fmt03d (patch_num + 1) @ ''_metadata.json''))
                             (patch_metadata patch_entry)) st1 of
               (Some e, st2) \<Rightarrow> (Some e, patch_num + 1, st2)
             | (None, st2) \<Rightarrow> extract_patches w patches_dir (patch_num + 1) rest st2))"

definition vuln_metadata ::
  "string \<Rightarrow> string \<Rightarrow> SubmissionEntry \<Rightarrow> nat \<Rightarrow> (string \<times> json) list" where
  "vuln_metadata tid pname submission patch_num =
     [(''task_id'', JString tid),
      (''project_name'', JString pname),
      (''num_crashes'', JNumber (length (crashes submission))),
      (''num_patches'', JNumber patch_num),
      (''num_bundles'', JNumber (length (bundles submission))),
      (''patch_idx'', JNumber (patch_idx submission)),
      (''stopped'', JBool (stop submission))]"

text \<open>
  The body of the \<^verbatim>\<open>try\<close> block for a decoded record. The counter of the task is
  incremented before the first file operation, so a record whose export raises has
  taken its number.
\<close>

definition extract_submission ::
  "'p platform \<Rightarrow> 'p ExtractPovsSettings \<Rightarrow> (string \<Rightarrow> Task option) \<Rightarrow> string \<Rightarrow> nat
     \<Rightarrow> SubmissionEntry \<Rightarrow> 'p ep_state \<Rightarrow> error option \<times> 'p ep_state" where
  "extract_submission w command registry pod_name i submission st =
     (if stop submission then (None, ep_log DEBUG (SkippingStopped i) st)
      else case crashes submission of
        [] \<Rightarrow> (None, ep_log DEBUG (SkippingNoCrashes i) st)
      | c0 # _ \<Rightarrow>
        (let tid = target_task_id (target (traced_crash (crash c0)))
         in if ep_task_id command \<noteq> [] \<and> tid \<noteq> ep_task_id command
            then (None, ep_log DEBUG (SkippingTask i tid) st)
            else if passed_only command
                    \<and> \<not> list_ex (\<lambda>c. crash_result c = PASSED) (crashes submission)
            then (None, ep_log DEBUG (SkippingNoPassed i) st)
            else
              (let pname = (case registry tid of
                              Some task \<Rightarrow> task_project_name task
                            | None \<Rightarrow> ''unknown'');
                   vuln_num = (case map_of (vuln_counter st) tid of
                                 None \<Rightarrow> 0 | Some n \<Rightarrow> n) + 1;
                   st1 = st\<lparr>vuln_counter := AList.update tid vuln_num (vuln_counter st)\<rparr>;
                   vuln_dir = join w (join w (join w (output_dir command) pname) tid)
                                (''vuln_'' @ fmt03d vuln_num);
                   crashes_dir = join w vuln_dir ''crashes'';
                   patches_dir = join w vuln_dir ''patches''
               in and_then (fs_do w (Mkdir crashes_dir) st1) (\<lambda>st2.
                  and_then (fs_do w (Mkdir patches_dir) st2) (\<lambda>st3.
                  and_then (extract_crashes w (namespace command) pod_name crashes_dir 1
                              (crashes submission) st3) (\<lambda>st4.
                  case extract_patches w patches_dir 0 (patches submission) st4 of
                    (Some e, patch_num, st5) \<Rightarrow> (Some e, st5)
                  | (None, patch_num, st5) \<Rightarrow>
                      and_then (fs_do w (WriteJson (join w vuln_dir ''metadata.json'')
                                           (vuln_metadata tid pname submission patch_num)) st5)
                        (\<lambda>st6. (None, ep_log INFO
                                  (Extracted vuln_num pname tid (length (crashes submission))
                                     patch_num) st6))))))))"

text \<open>
  One turn of the loop: the body, and the \<^verbatim>\<open>except\<close> clause, which logs whatever the
  body raised, a failure to decode or a failure of a file operation, and goes on.
\<close>

definition extract_submission_step ::
  "'p platform \<Rightarrow> 'p ExtractPovsSettings \<Rightarrow> ('raw \<Rightarrow> SubmissionEntry option)
     \<Rightarrow> (string \<Rightarrow> Task option) \<Rightarrow> string \<Rightarrow> nat \<Rightarrow> 'raw \<Rightarrow> 'p ep_state \<Rightarrow> 'p ep_state" where
  "extract_submission_step w command FromString registry pod_name i raw st =
     (case FromString raw of
        None \<Rightarrow> ep_log ERROR (FailedToProcess i DecodeError) st
      | Some submission \<Rightarrow>
          (case extract_submission w command registry pod_name i submission st of
             (Some e, st') \<Rightarrow> ep_log ERROR (FailedToProcess i e) st'
           | (None, st') \<Rightarrow> st'))"

fun extract_povs_loop ::
  "'p platform \<Rightarrow> 'p ExtractPovsSettings \<Rightarrow> ('raw \<Rightarrow> SubmissionEntry option)
     \<Rightarrow> (string \<Rightarrow> Task option) \<Rightarrow> string \<Rightarrow> nat \<Rightarrow> 'raw list \<Rightarrow> 'p ep_state \<Rightarrow> 'p ep_state" where
  "extract_povs_loop w command FromString registry pod_name i [] st = st"
| "extract_povs_loop w command FromString registry pod_name i (raw # rest) st =
     extract_povs_loop w command FromString registry pod_name (Suc i) rest
       (extract_submission_step w command FromString registry pod_name i raw st)"

text \<open>
  The whole function on the stored list. \<open>pod\<close> is what \<^verbatim>\<open>get_pod_name\<close> returned. The
  \<^verbatim>\<open>mkdir\<close> of the output directory is outside the loop, and what it raises ends the
  function.
\<close>

definition extract_povs ::
  "'p platform \<Rightarrow> 'p ExtractPovsSettings \<Rightarrow> ('raw \<Rightarrow> SubmissionEntry option)
     \<Rightarrow> (string \<Rightarrow> Task option) \<Rightarrow> string option \<Rightarrow> 'raw list
     \<Rightarrow> error option \<times> 'p ep_state" where
  "extract_povs w command FromString registry pod raw_submissions =
     (let st0 = \<lparr>vuln_counter = [], povs_copied = 0, povs_failed = 0, fs = [], log = []\<rparr>
      in if raw_submissions = [] then (None, ep_log INFO NoSubmissionsFound st0)
         else case pod of
           None \<Rightarrow> (None, ep_log ERROR (NoPodFound (pod_label command) (namespace command)) st0)
         | Some pod_name \<Rightarrow>
           if pod_name = []
           then (None, ep_log ERROR (NoPodFound (pod_label command) (namespace command)) st0)
           else
             and_then (fs_do w (Mkdir (output_dir command)) (ep_log INFO (UsingPod pod_name) st0))
               (\<lambda>st2.
                 let st3 = ep_log INFO (FoundExtracting (length raw_submissions)
                                          (path_str w (output_dir command))) st2;
                     st4 = extract_povs_loop w command FromString registry pod_name 0
                             raw_submissions st3;
                     total_vulns = sum_list (map snd (vuln_counter st4))
                 in (None,
                     st4\<lparr>log := log st4
                           @ [Log INFO (ExtractionComplete total_vulns (length (vuln_counter st4))),
                              Log INFO (PovFiles (povs_copied st4) (povs_failed st4))]
                           @ map (\<lambda>(tid, count). Log INFO (TaskVulnerabilities tid count))
                               (vuln_counter st4)\<rparr>)))"

section \<open>Sample records\<close>

text \<open>Small records on which the theorems below are instantiated.\<close>

definition sample_crash ::
  "string \<Rightarrow> string \<Rightarrow> string \<Rightarrow> string \<Rightarrow> SubmissionResult \<Rightarrow> CrashWithId" where
  "sample_crash tid trace token pov r =
     \<lparr>crash = \<lparr>traced_crash = \<lparr>target = \<lparr>target_task_id = tid, sanitizer = ''address'',
                                          engine = ''libfuzzer''\<rparr>,
                                harness_name = ''fuzz_target'',
                                crash_input_path = ''/crashes/input'',
                                stacktrace = trace, crash_token = token\<rparr>,
               tracer_stacktrace = []\<rparr>,
      competition_pov_id = pov, crash_result = r\<rparr>"

definition sample_patch :: "string \<Rightarrow> SubmissionResult \<Rightarrow> SubmissionPatch" where
  "sample_patch diff r =
     \<lparr>internal_patch_id = ''p'', competition_patch_id = ''cp'', patch = diff,
      patch_result = r\<rparr>"

definition sample_entry :: "CrashWithId list \<Rightarrow> SubmissionPatch list \<Rightarrow> bool \<Rightarrow> SubmissionEntry" where
  "sample_entry cs ps stopped =
     \<lparr>crashes = cs, patches = ps, bundles = [], patch_idx = 0, stop = stopped\<rparr>"

definition sample_registry :: "string \<Rightarrow> Task option" where
  "sample_registry tid =
     (if tid = ''T1'' then Some \<lparr>task_project_name = ''libpng'', task_type = 1\<rparr> else None)"

definition sample_read :: ReadSubmissionsSettings where
  "sample_read = \<lparr>rs_task_id = [], verbose = False, filter_stop = False\<rparr>"

text \<open>
  A platform whose paths are lists of components, on which nothing fails and every
  copy from the pod succeeds.
\<close>

definition sample_platform :: "string list platform" where
  "sample_platform = \<lparr>join = (\<lambda>p s. p @ [s]), path_str = concat,
                        fails = (\<lambda>_ _. False), kubectl_cp = (\<lambda>_ _ _ _. True)\<rparr>"

definition sample_extract :: "string list ExtractPovsSettings" where
  "sample_extract = \<lparr>output_dir = [''out''], ep_task_id = [], passed_only = False,
                      namespace = ''crs'', pod_label = ''app=scheduler''\<rparr>"

definition rs_empty :: rs_state where
  "rs_empty = \<lparr>result = [], out = []\<rparr>"

definition ep_empty :: "string list ep_state" where
  "ep_empty = \<lparr>vuln_counter = [], povs_copied = 0, povs_failed = 0, fs = [], log = []\<rparr>"

section \<open>Vocabulary of the statements\<close>


text \<open>The message that \<^verbatim>\<open>read_submissions\<close> works on and prints for a decoded record.\<close>

definition shown :: "ReadSubmissionsSettings \<Rightarrow> SubmissionEntry \<Rightarrow> SubmissionEntry" where
  "shown command e = (if \<not> verbose command then truncate_stacktraces e 80 else e)"

text \<open>The stored records that decode, in the order of the store.\<close>

definition decodable :: "('raw \<Rightarrow> SubmissionEntry option) \<Rightarrow> 'raw list \<Rightarrow> SubmissionEntry list" where
  "decodable FromString raw_submissions = List.map_filter FromString raw_submissions"

text \<open>
  What one turn of the loop of \<^verbatim>\<open>read_submissions\<close> logs and prints for the record
  at index \<open>i\<close>; it does not depend on the dictionary built so far.
\<close>

definition read_events ::
  "ReadSubmissionsSettings \<Rightarrow> ('raw \<Rightarrow> SubmissionEntry option) \<Rightarrow> (string \<Rightarrow> Task option)
     \<Rightarrow> nat \<Rightarrow> 'raw \<Rightarrow> event list" where
  "read_events command FromString registry i raw =
     out (read_submission_step command FromString registry i raw \<lparr>result = [], out = []\<rparr>)"

text \<open>
  What \<^verbatim>\<open>extract_povs\<close> has exported: the counters and the file operations, without
  the log.
\<close>

definition exported ::
  "'p ep_state \<Rightarrow> (string \<times> nat) list \<times> nat \<times> nat \<times> 'p fs_op list" where
  "exported st = (vuln_counter st, povs_copied st, povs_failed st, fs st)"

text \<open>
  Two outcomes of a statement of the export are alike when the same thing was raised,
  or nothing, and the same has been exported.
\<close>

definition alike ::
  "error option \<times> 'p ep_state \<Rightarrow> error option \<times> 'p ep_state \<Rightarrow> bool" where
  "alike r r' = (fst r = fst r' \<and> exported (snd r) = exported (snd r'))"

text \<open>
  The statements of the body of \<^verbatim>\<open>extract_povs\<close> after the counter of the task was
  incremented to \<open>n\<close>, with the task id and project name of the record.
\<close>

definition export_body ::
  "'p platform \<Rightarrow> 'p ExtractPovsSettings \<Rightarrow> string \<Rightarrow> SubmissionEntry \<Rightarrow> string \<Rightarrow> string
     \<Rightarrow> nat \<Rightarrow> 'p ep_state \<Rightarrow> error option \<times> 'p ep_state" where
  "export_body w command pod_name e tid pname n st1 =
     and_then (fs_do w (Mkdir (join w (join w (join w (join w (output_dir command) pname) tid)
                                 (''vuln_'' @ fmt03d n)) ''crashes'')) st1) (\<lambda>st2.
     and_then (fs_do w (Mkdir (join w (join w (join w (join w (output_dir command) pname) tid)
                                 (''vuln_'' @ fmt03d n)) ''patches'')) st2) (\<lambda>st3.
     and_then (extract_crashes w (namespace command) pod_name
                 (join w (join w (join w (join w (output_dir command) pname) tid)
                    (''vuln_'' @ fmt03d n)) ''crashes'') 1 (crashes e) st3) (\<lambda>st4.
     case extract_patches w (join w (join w (join w (join w (output_dir command) pname) tid)
                               (''vuln_'' @ fmt03d n)) ''patches'') 0 (patches e) st4 of
       (Some err, patch_num, st5) \<Rightarrow> (Some err, st5)
     | (None, patch_num, st5) \<Rightarrow>
         and_then (fs_do w (WriteJson (join w (join w (join w (join w (output_dir command) pname) tid)
                                         (''vuln_'' @ fmt03d n)) ''metadata.json'')
                              (vuln_metadata tid pname e patch_num)) st5)
           (\<lambda>st6. (None, ep_log INFO (Extracted n pname tid (length (crashes e)) patch_num) st6)))))"

section \<open>Properties of the display truncation\<close>

lemma truncate_field_nonneg:
  "0 \<le> n \<Longrightarrow> truncate_field n f =
     (if n < int (length f) then take (nat n) f @ ''... (truncated)'' else f)"
  by (auto simp: truncate_field_def py_slice_to_def)

lemma truncate_in_place_frame:
  "r < length h \<Longrightarrow>
   length (truncate_in_place n r is h) = length h \<and>
   (\<forall>b. b \<noteq> r \<longrightarrow> truncate_in_place n r is h ! b = h ! b)"
  by (induction "is" arbitrary: h) auto

lemma update_then_map:
  "i \<notin> set rest \<Longrightarrow>
   map (\<lambda>j. if j \<in> set rest then f (cs[i := f (cs ! i)] ! j) else cs[i := f (cs ! i)] ! j)
     [0..<length cs] =
   map (\<lambda>j. if j \<in> set (i # rest) then f (cs ! j) else cs ! j) [0..<length cs]"
proof (rule map_cong)
  fix x assume x: "x \<in> set [0..<length cs]" and i: "i \<notin> set rest"
  show "(if x \<in> set rest then f (cs[i := f (cs ! i)] ! x) else cs[i := f (cs ! i)] ! x) =
        (if x \<in> set (i # rest) then f (cs ! x) else cs ! x)"
  proof (cases "x = i")
    case True
    with x i show ?thesis by simp
  next
    case False
    then show ?thesis by simp
  qed
qed simp

lemma truncate_in_place_object:
  "r < length h \<Longrightarrow> distinct is \<Longrightarrow>
   truncate_in_place n r is h ! r =
     (h ! r)\<lparr>crashes := map (\<lambda>j. if j \<in> set is then truncate_crash n (crashes (h ! r) ! j)
                                 else crashes (h ! r) ! j) [0..<length (crashes (h ! r))]\<rparr>"
proof (induction "is" arbitrary: h)
  case Nil
  then show ?case by (simp add: map_nth)
next
  case (Cons i rest)
  let ?o = "(h ! r)\<lparr>crashes := (crashes (h ! r))[i := truncate_crash n (crashes (h ! r) ! i)]\<rparr>"
  have "truncate_in_place n r (i # rest) h ! r = truncate_in_place n r rest (h[r := ?o]) ! r"
    by simp
  also have "\<dots> = ?o\<lparr>crashes := map (\<lambda>j. if j \<in> set rest then truncate_crash n (crashes ?o ! j)
                                 else crashes ?o ! j) [0..<length (crashes ?o)]\<rparr>"
    using Cons.IH [of "h[r := ?o]"] Cons.prems by simp
  also have "\<dots> = (h ! r)\<lparr>crashes := map (\<lambda>j. if j \<in> set rest
        then truncate_crash n ((crashes (h ! r))[i := truncate_crash n (crashes (h ! r) ! i)] ! j)
        else (crashes (h ! r))[i := truncate_crash n (crashes (h ! r) ! i)] ! j)
        [0..<length (crashes (h ! r))]\<rparr>"
    by simp
  also have "\<dots> = (h ! r)\<lparr>crashes := map (\<lambda>j. if j \<in> set (i # rest) then truncate_crash n (crashes (h ! r) ! j)
                                 else crashes (h ! r) ! j) [0..<length (crashes (h ! r))]\<rparr>"
  proof -
    from Cons.prems have "i \<notin> set rest" by simp
    from update_then_map [OF this, of "truncate_crash n" "crashes (h ! r)"]
    show ?thesis by (rule arg_cong [where f = "\<lambda>cs. (h ! r)\<lparr>crashes := cs\<rparr>"])
  qed
  finally show ?case .
qed

lemma map_all_indices: "map (\<lambda>j. if j \<in> set [0..<length cs] then f (cs ! j) else cs ! j) [0..<length cs] = map f cs"
  by (rule nth_equalityI) auto

lemma truncate_in_place_all:
  "r < length h \<Longrightarrow>
   truncate_in_place n r [0..<length (crashes (h ! r))] h ! r = truncate_stacktraces (h ! r) n"
  using truncate_in_place_object [of r h "[0..<length (crashes (h ! r))]" n]
  by (simp only: map_all_indices distinct_upt truncate_stacktraces_def Let_def)

lemma truncate_crash_fields:
  "competition_pov_id (truncate_crash n c) = competition_pov_id c"
  "crash_result (truncate_crash n c) = crash_result c"
  "target (traced_crash (crash (truncate_crash n c))) = target (traced_crash (crash c))"
  "harness_name (traced_crash (crash (truncate_crash n c))) = harness_name (traced_crash (crash c))"
  "crash_input_path (traced_crash (crash (truncate_crash n c))) = crash_input_path (traced_crash (crash c))"
  "stacktrace (traced_crash (crash (truncate_crash n c))) = truncate_field n (stacktrace (traced_crash (crash c)))"
  "tracer_stacktrace (crash (truncate_crash n c)) = truncate_field n (tracer_stacktrace (crash c))"
  "crash_token (traced_crash (crash (truncate_crash n c))) = truncate_field n (crash_token (traced_crash (crash c)))"
  by (simp_all add: truncate_crash_def Let_def)

lemma truncate_stacktraces_fields:
  "crashes (truncate_stacktraces s n) = map (truncate_crash n) (crashes s)"
  "patches (truncate_stacktraces s n) = patches s"
  "bundles (truncate_stacktraces s n) = bundles s"
  "patch_idx (truncate_stacktraces s n) = patch_idx s"
  "stop (truncate_stacktraces s n) = stop s"
  by (simp_all add: truncate_stacktraces_def Let_def)

lemma truncate_stacktraces_ref_Some:
  assumes "truncate_stacktraces_ref h s n = Some (h', t)"
  shows "s < length h" and "t = length h" and "length h' = Suc (length h)"
    and "\<forall>r<length h. h' ! r = h ! r"
    and "h' ! t = truncate_stacktraces (h ! s) n"
proof -
  show s: "s < length h" using assms by (simp add: truncate_stacktraces_ref_def split: if_splits)
  let ?h1 = "h @ [h ! s]"
  have "truncate_stacktraces_ref h s n =
          Some (truncate_in_place n (length h) [0..<length (crashes (?h1 ! length h))] ?h1, length h)"
    using s by (simp only: truncate_stacktraces_ref_def Let_def if_True)
  with assms
  have "Some (h', t) = Some (truncate_in_place n (length h) [0..<length (crashes (?h1 ! length h))] ?h1, length h)"
    by (rule trans [OF sym])
  then have h': "h' = truncate_in_place n (length h) [0..<length (crashes (?h1 ! length h))] ?h1"
    and t: "t = length h"
    by blast+
  show "t = length h" by (rule t)
  have lt: "length h < length ?h1" by simp
  from truncate_in_place_frame [OF lt] h'
  show "length h' = Suc (length h)" by simp
  show "\<forall>r<length h. h' ! r = h ! r"
  proof (intro allI impI)
    fix r assume r: "r < length h"
    then have "r \<noteq> length h" by simp
    with truncate_in_place_frame [OF lt, of n "[0..<length (crashes (?h1 ! length h))]"] h'
    have "h' ! r = ?h1 ! r" by blast
    with r show "h' ! r = h ! r" by (simp add: nth_append)
  qed
  from truncate_in_place_all [OF lt, of n] h' t
  show "h' ! t = truncate_stacktraces (h ! s) n" by simp
qed

lemma truncate_field_short:
  "int (length f) \<le> n \<Longrightarrow> truncate_field n f = f"
  by (simp add: truncate_field_def)

lemma truncate_field_long:
  "f \<noteq> [] \<Longrightarrow> n < int (length f) \<Longrightarrow> truncate_field n f = py_slice_to n f @ ''... (truncated)''"
  by (simp add: truncate_field_def)

lemma truncate_stacktraces_ref_total:
  "submission < length h \<Longrightarrow>
   \<exists>h'. truncate_stacktraces_ref h submission max_length = Some (h', length h)"
  by (simp add: truncate_stacktraces_ref_def Let_def)

text \<open>
  Claim C5, with the replacement stated for a \<open>max_length\<close> that is not negative. For
  every store, every reference into it and every \<open>max_length\<close>,
  \<^verbatim>\<open>truncate_stacktraces\<close> returns a new object and writes to no object that existed
  before the call, its input among them; the copy has the patches, bundles, patch index
  and stop flag of the input and as many crashes, each with the target, harness name,
  input path, POV id and result of the input's; and a stacktrace, tracer stacktrace or
  crash token of at most \<open>max_length\<close> characters is the input's. When
  \<open>0 \<le> max_length\<close>, every stacktrace and tracer stacktrace longer than \<open>max_length\<close>
  is its first \<open>max_length\<close> characters followed by \<^verbatim>\<open>... (truncated)\<close>.
\<close>

theorem truncate_stacktraces_display_copy:
  assumes "submission < length h"
  shows "\<exists>h'. truncate_stacktraces_ref h submission max_length = Some (h', length h)
    \<and> length h' = Suc (length h)
    \<and> (\<forall>r<length h. h' ! r = h ! r)
    \<and> h' ! length h = truncate_stacktraces (h ! submission) max_length
    \<and> patches (h' ! length h) = patches (h ! submission)
    \<and> bundles (h' ! length h) = bundles (h ! submission)
    \<and> patch_idx (h' ! length h) = patch_idx (h ! submission)
    \<and> stop (h' ! length h) = stop (h ! submission)
    \<and> length (crashes (h' ! length h)) = length (crashes (h ! submission))
    \<and> (\<forall>i<length (crashes (h ! submission)).
          (0 \<le> max_length \<longrightarrow>
             stacktrace (traced_crash (crash (crashes (h' ! length h) ! i))) =
               (if max_length < int (length (stacktrace (traced_crash (crash (crashes (h ! submission) ! i)))))
                then take (nat max_length) (stacktrace (traced_crash (crash (crashes (h ! submission) ! i))))
                       @ ''... (truncated)''
                else stacktrace (traced_crash (crash (crashes (h ! submission) ! i))))
           \<and> tracer_stacktrace (crash (crashes (h' ! length h) ! i)) =
               (if max_length < int (length (tracer_stacktrace (crash (crashes (h ! submission) ! i))))
                then take (nat max_length) (tracer_stacktrace (crash (crashes (h ! submission) ! i)))
                       @ ''... (truncated)''
                else tracer_stacktrace (crash (crashes (h ! submission) ! i))))
        \<and> (int (length (stacktrace (traced_crash (crash (crashes (h ! submission) ! i))))) \<le> max_length
             \<longrightarrow> stacktrace (traced_crash (crash (crashes (h' ! length h) ! i))) =
                  stacktrace (traced_crash (crash (crashes (h ! submission) ! i))))
        \<and> (int (length (tracer_stacktrace (crash (crashes (h ! submission) ! i)))) \<le> max_length
             \<longrightarrow> tracer_stacktrace (crash (crashes (h' ! length h) ! i)) =
                  tracer_stacktrace (crash (crashes (h ! submission) ! i)))
        \<and> (int (length (crash_token (traced_crash (crash (crashes (h ! submission) ! i))))) \<le> max_length
             \<longrightarrow> crash_token (traced_crash (crash (crashes (h' ! length h) ! i))) =
                  crash_token (traced_crash (crash (crashes (h ! submission) ! i))))
        \<and> target (traced_crash (crash (crashes (h' ! length h) ! i))) =
            target (traced_crash (crash (crashes (h ! submission) ! i)))
        \<and> harness_name (traced_crash (crash (crashes (h' ! length h) ! i))) =
            harness_name (traced_crash (crash (crashes (h ! submission) ! i)))
        \<and> crash_input_path (traced_crash (crash (crashes (h' ! length h) ! i))) =
            crash_input_path (traced_crash (crash (crashes (h ! submission) ! i)))
        \<and> competition_pov_id (crashes (h' ! length h) ! i) =
            competition_pov_id (crashes (h ! submission) ! i)
        \<and> crash_result (crashes (h' ! length h) ! i) = crash_result (crashes (h ! submission) ! i))"
proof -
  from truncate_stacktraces_ref_total [OF assms]
  obtain h' where ref: "truncate_stacktraces_ref h submission max_length = Some (h', length h)"
    by blast
  note r = truncate_stacktraces_ref_Some [OF ref]
  have copy: "h' ! length h = truncate_stacktraces (h ! submission) max_length" by (rule r(5))
  have rest: "length h' = Suc (length h)
    \<and> (\<forall>r<length h. h' ! r = h ! r)
    \<and> h' ! length h = truncate_stacktraces (h ! submission) max_length
    \<and> patches (h' ! length h) = patches (h ! submission)
    \<and> bundles (h' ! length h) = bundles (h ! submission)
    \<and> patch_idx (h' ! length h) = patch_idx (h ! submission)
    \<and> stop (h' ! length h) = stop (h ! submission)
    \<and> length (crashes (h' ! length h)) = length (crashes (h ! submission))"
    unfolding copy using r(3,4) by (simp add: truncate_stacktraces_fields)
  have each: "\<forall>i<length (crashes (h ! submission)).
          (0 \<le> max_length \<longrightarrow>
             stacktrace (traced_crash (crash (crashes (h' ! length h) ! i))) =
               (if max_length < int (length (stacktrace (traced_crash (crash (crashes (h ! submission) ! i)))))
                then take (nat max_length) (stacktrace (traced_crash (crash (crashes (h ! submission) ! i))))
                       @ ''... (truncated)''
                else stacktrace (traced_crash (crash (crashes (h ! submission) ! i))))
           \<and> tracer_stacktrace (crash (crashes (h' ! length h) ! i)) =
               (if max_length < int (length (tracer_stacktrace (crash (crashes (h ! submission) ! i))))
                then take (nat max_length) (tracer_stacktrace (crash (crashes (h ! submission) ! i)))
                       @ ''... (truncated)''
                else tracer_stacktrace (crash (crashes (h ! submission) ! i))))
        \<and> (int (length (stacktrace (traced_crash (crash (crashes (h ! submission) ! i))))) \<le> max_length
             \<longrightarrow> stacktrace (traced_crash (crash (crashes (h' ! length h) ! i))) =
                  stacktrace (traced_crash (crash (crashes (h ! submission) ! i))))
        \<and> (int (length (tracer_stacktrace (crash (crashes (h ! submission) ! i)))) \<le> max_length
             \<longrightarrow> tracer_stacktrace (crash (crashes (h' ! length h) ! i)) =
                  tracer_stacktrace (crash (crashes (h ! submission) ! i)))
        \<and> (int (length (crash_token (traced_crash (crash (crashes (h ! submission) ! i))))) \<le> max_length
             \<longrightarrow> crash_token (traced_crash (crash (crashes (h' ! length h) ! i))) =
                  crash_token (traced_crash (crash (crashes (h ! submission) ! i))))
        \<and> target (traced_crash (crash (crashes (h' ! length h) ! i))) =
            target (traced_crash (crash (crashes (h ! submission) ! i)))
        \<and> harness_name (traced_crash (crash (crashes (h' ! length h) ! i))) =
            harness_name (traced_crash (crash (crashes (h ! submission) ! i)))
        \<and> crash_input_path (traced_crash (crash (crashes (h' ! length h) ! i))) =
            crash_input_path (traced_crash (crash (crashes (h ! submission) ! i)))
        \<and> competition_pov_id (crashes (h' ! length h) ! i) =
            competition_pov_id (crashes (h ! submission) ! i)
        \<and> crash_result (crashes (h' ! length h) ! i) = crash_result (crashes (h ! submission) ! i)"
    unfolding copy
    by (simp add: truncate_stacktraces_fields truncate_crash_fields truncate_field_nonneg
          truncate_field_short)
  from ref rest each show ?thesis by blast
qed

theorem truncate_stacktraces_display_copy_witness:
  "(0::nat) < length [sample_entry [sample_crash ''T1'' ''abcdef'' ''tok'' ''pov-1'' PASSED] [] False]
   \<and> (0::int) \<le> 3
   \<and> truncate_stacktraces_ref
        [sample_entry [sample_crash ''T1'' ''abcdef'' ''tok'' ''pov-1'' PASSED] [] False] 0 3
       = Some ([sample_entry [sample_crash ''T1'' ''abcdef'' ''tok'' ''pov-1'' PASSED] [] False,
                sample_entry [sample_crash ''T1'' ''abc... (truncated)'' ''tok'' ''pov-1'' PASSED] [] False], 1)
   \<and> [sample_entry [sample_crash ''T1'' ''abcdef'' ''tok'' ''pov-1'' PASSED] [] False,
       sample_entry [sample_crash ''T1'' ''abc... (truncated)'' ''tok'' ''pov-1'' PASSED] [] False] ! 0
       = sample_entry [sample_crash ''T1'' ''abcdef'' ''tok'' ''pov-1'' PASSED] [] False"
proof -
  have ev: "truncate_stacktraces_ref
        [sample_entry [sample_crash ''T1'' ''abcdef'' ''tok'' ''pov-1'' PASSED] [] False] 0 3
       = Some ([sample_entry [sample_crash ''T1'' ''abcdef'' ''tok'' ''pov-1'' PASSED] [] False,
                sample_entry [sample_crash ''T1'' ''abc... (truncated)'' ''tok'' ''pov-1'' PASSED] [] False], 1)"
    by (simp add: truncate_stacktraces_ref_def sample_entry_def sample_crash_def
          truncate_crash_def truncate_field_def py_slice_to_def Let_def)
  from truncate_stacktraces_display_copy
         [of 0 "[sample_entry [sample_crash ''T1'' ''abcdef'' ''tok'' ''pov-1'' PASSED] [] False]" 3] ev
  show ?thesis by simp
qed

text \<open>
  Claim C5 as stated ranges over every \<open>max_length\<close>. At \<open>max_length = -1\<close> the slice
  \<^verbatim>\<open>s[:-1]\<close> drops the last character, so the stacktrace \<^verbatim>\<open>abc\<close> becomes
  \<^verbatim>\<open>ab... (truncated)\<close>, and the empty tracer stacktrace, whose length 0 exceeds
  \<open>-1\<close>, stays empty since an empty string is false in the condition.
\<close>

theorem truncate_stacktraces_negative_max_length_counterexample:
  "(-1::int) < int (length ''abc'')
   \<and> stacktrace (traced_crash (crash (crashes (truncate_stacktraces
         (sample_entry [sample_crash ''T1'' ''abc'' ''tok'' ''pov-1'' PASSED] [] False) (-1)) ! 0)))
       = ''ab... (truncated)''
   \<and> ''ab... (truncated)'' \<noteq> take (nat (-1)) ''abc'' @ ''... (truncated)''
   \<and> (-1::int) < int (length ([]::string))
   \<and> tracer_stacktrace (crash (crashes (truncate_stacktraces
         (sample_entry [sample_crash ''T1'' ''abc'' ''tok'' ''pov-1'' PASSED] [] False) (-1)) ! 0))
       = []
   \<and> ([]::string) \<noteq> take (nat (-1)) [] @ ''... (truncated)''"
  by (simp add: truncate_stacktraces_def sample_entry_def sample_crash_def
        truncate_crash_def truncate_field_def py_slice_to_def Let_def)

text \<open>
  Claim C9, for a \<open>max_length\<close> that is not negative: the loop of
  \<^verbatim>\<open>truncate_stacktraces\<close> truncates the crash token as well. A crash token longer
  than \<open>max_length\<close> is, in the returned copy, its first \<open>max_length\<close> characters
  followed by \<^verbatim>\<open>... (truncated)\<close>.
\<close>

theorem truncate_stacktraces_crash_token:
  assumes "0 \<le> max_length" and "i < length (crashes submission)"
    and "max_length < int (length (crash_token (traced_crash (crash (crashes submission ! i)))))"
  shows "crash_token (traced_crash (crash (crashes (truncate_stacktraces submission max_length) ! i))) =
           take (nat max_length) (crash_token (traced_crash (crash (crashes submission ! i))))
             @ ''... (truncated)''"
  using assms
  by (simp add: truncate_stacktraces_fields truncate_crash_fields truncate_field_nonneg)

theorem truncate_stacktraces_crash_token_witness:
  "(0::int) \<le> 3
   \<and> (0::nat) < length (crashes (sample_entry [sample_crash ''T1'' ''abcdef'' ''tokenxyz'' ''pov-1'' PASSED] [] False))
   \<and> 3 < int (length (crash_token (traced_crash (crash (crashes
           (sample_entry [sample_crash ''T1'' ''abcdef'' ''tokenxyz'' ''pov-1'' PASSED] [] False) ! 0)))))
   \<and> crash_token (traced_crash (crash (crashes (truncate_stacktraces
           (sample_entry [sample_crash ''T1'' ''abcdef'' ''tokenxyz'' ''pov-1'' PASSED] [] False) 3) ! 0)))
       = ''tok... (truncated)''"
  using truncate_stacktraces_crash_token
          [of 3 0 "sample_entry [sample_crash ''T1'' ''abcdef'' ''tokenxyz'' ''pov-1'' PASSED] [] False"]
  by (simp add: sample_entry_def sample_crash_def)

text \<open>
  Claim C9 as stated does not restrict \<open>max_length\<close>, a Python integer. At
  \<open>max_length = -1\<close> the crash token \<^verbatim>\<open>tok\<close> becomes \<^verbatim>\<open>to... (truncated)\<close>, which
  is not its first \<open>max_length\<close> characters followed by the suffix, and an empty crash
  token, whose length 0 exceeds \<open>-1\<close>, stays empty.
\<close>

theorem truncate_stacktraces_crash_token_counterexample:
  "(-1::int) < int (length ''tok'')
   \<and> crash_token (traced_crash (crash (crashes (truncate_stacktraces
         (sample_entry [sample_crash ''T1'' ''abc'' ''tok'' ''pov-1'' PASSED] [] False) (-1)) ! 0)))
       = ''to... (truncated)''
   \<and> ''to... (truncated)'' \<noteq> take (nat (-1)) ''tok'' @ ''... (truncated)''
   \<and> (-1::int) < int (length ([]::string))
   \<and> crash_token (traced_crash (crash (crashes (truncate_stacktraces
         (sample_entry [sample_crash ''T1'' ''abc'' [] ''pov-1'' PASSED] [] False) (-1)) ! 0)))
       = []
   \<and> ([]::string) \<noteq> take (nat (-1)) [] @ ''... (truncated)''"
  by (simp add: truncate_stacktraces_def sample_entry_def sample_crash_def
        truncate_crash_def truncate_field_def py_slice_to_def Let_def)

section \<open>Properties of read\_submissions\<close>

lemma find_truncate_crash:
  "List.find (\<lambda>c. crash_result c = PASSED) (map (truncate_crash n) cs) =
   map_option (truncate_crash n) (List.find (\<lambda>c. crash_result c = PASSED) cs)"
  by (induction cs) (simp_all add: truncate_crash_fields)

lemma first_passed_crash_truncate:
  "first_passed_crash (truncate_stacktraces e n) = map_option (truncate_crash n) (first_passed_crash e)"
  by (simp add: first_passed_crash_def truncate_stacktraces_fields find_truncate_crash)

lemma first_passed_patch_truncate:
  "first_passed_patch (truncate_stacktraces e n) = first_passed_patch e"
  by (simp add: first_passed_patch_def truncate_stacktraces_fields)

lemma count_bundles_truncate:
  "count_bundles (truncate_stacktraces e n) tr = count_bundles e tr"
  by (simp add: count_bundles_def truncate_stacktraces_fields)

lemma count_submission_truncate:
  "count_submission (truncate_stacktraces e n) tr = count_submission e tr"
  by (cases "first_passed_crash e"; cases "first_passed_patch e")
     (simp_all add: count_submission_def first_passed_crash_truncate first_passed_patch_truncate
        count_bundles_truncate truncate_crash_fields)

lemma count_submission_shown:
  "count_submission (shown command e) tr = count_submission e tr"
  by (simp add: shown_def count_submission_truncate)

lemma shown_fields:
  "stop (shown command e) = stop e"
  "patches (shown command e) = patches e"
  "bundles (shown command e) = bundles e"
  "(crashes (shown command e) = []) = (crashes e = [])"
  by (simp_all add: shown_def truncate_stacktraces_fields)

lemma shown_task:
  "crashes e = c0 # cs \<Longrightarrow>
   \<exists>c0' cs'. crashes (shown command e) = c0' # cs' \<and>
     target_task_id (target (traced_crash (crash c0'))) = target_task_id (target (traced_crash (crash c0)))"
  by (simp add: shown_def truncate_stacktraces_fields truncate_crash_fields)


lemma first_passed_crash_None:
  "(first_passed_crash e = None) = (\<not> (\<exists>c\<in>set (crashes e). crash_result c = PASSED))"
  by (auto simp: first_passed_crash_def find_None_iff)

lemma first_passed_patch_None:
  "(first_passed_patch e = None) = (\<not> (\<exists>p\<in>set (patches e). patch_result p = PASSED))"
  by (auto simp: first_passed_patch_def find_None_iff)


lemma count_submission_error:
  "fst (count_submission e tr) =
     (if first_passed_patch e \<noteq> None \<and> first_passed_crash e = None then Some AssertionError else None)"
  by (cases "first_passed_crash e"; cases "first_passed_patch e";
      simp add: count_submission_def Let_def)



lemma count_submission_split:
  "count_submission e tr =
     (if first_passed_patch e \<noteq> None \<and> first_passed_crash e = None then Some AssertionError else None,
      snd (count_submission e tr))"
  by (rule prod_eqI) (simp_all add: count_submission_error)

text \<open>The body on a decoded record with the truncation taken out of the guards.\<close>

lemma read_submission_entry_flat:
  "read_submission_entry command registry i e st =
     (if filter_stop command \<and> stop e then (None, emit (Log INFO (SkippingStopped i)) st)
      else case crashes e of
        [] \<Rightarrow> (Some IndexError, st)
      | c0 # _ \<Rightarrow>
        (case registry (target_task_id (target (traced_crash (crash c0)))) of
           None \<Rightarrow> (None, emit (Log ERROR (TaskNotFound (target_task_id (target (traced_crash (crash c0)))))) st)
         | Some task \<Rightarrow>
           if rs_task_id command \<noteq> []
              \<and> target_task_id (target (traced_crash (crash c0))) \<noteq> rs_task_id command
           then (None, emit (Log INFO (SkippingTaskNot i (target_task_id (target (traced_crash (crash c0))))
                                          (rs_task_id command))) st)
           else if first_passed_patch e \<noteq> None \<and> first_passed_crash e = None
           then (Some AssertionError,
                 st\<lparr>result := AList.update (target_task_id (target (traced_crash (crash c0))))
                     (snd (count_submission e
                        (case map_of (result st) (target_task_id (target (traced_crash (crash c0)))) of
                           None \<Rightarrow> new_TaskResult (target_task_id (target (traced_crash (crash c0)))) task
                         | Some tr \<Rightarrow> tr)))
                     (result st)\<rparr>)
           else (None, emit (PrintSubmission i (shown command e))
                 (st\<lparr>result := AList.update (target_task_id (target (traced_crash (crash c0))))
                     (snd (count_submission e
                        (case map_of (result st) (target_task_id (target (traced_crash (crash c0)))) of
                           None \<Rightarrow> new_TaskResult (target_task_id (target (traced_crash (crash c0)))) task
                         | Some tr \<Rightarrow> tr)))
                     (result st)\<rparr>))))"
proof (cases "crashes e")
  case Nil
  then show ?thesis
    by (simp add: read_submission_entry_def truncate_stacktraces_fields Let_def)
next
  case (Cons c0 cs)
  let ?tid = "target_task_id (target (traced_crash (crash c0)))"
  show ?thesis
  proof (cases "registry ?tid")
    case None
    with Cons show ?thesis
      by (auto simp: read_submission_entry_def truncate_stacktraces_fields truncate_crash_fields Let_def)
  next
    case (Some task)
    let ?tr0 = "case map_of (result st) ?tid of None \<Rightarrow> new_TaskResult ?tid task | Some tr \<Rightarrow> tr"
    obtain err tr where c: "count_submission e ?tr0 = (err, tr)"
      by (cases "count_submission e ?tr0")
    have err: "err = (if first_passed_patch e \<noteq> None \<and> first_passed_crash e = None
                      then Some AssertionError else None)"
      using c count_submission_error [of e ?tr0] by simp
    have c80: "count_submission (truncate_stacktraces e 80) ?tr0 = (err, tr)"
      using c by (simp add: count_submission_truncate)
    have sh: "stop (shown command e) = stop e"
      "crashes (shown command e) = (if verbose command then c0 # cs
         else truncate_crash 80 c0 # map (truncate_crash 80) cs)"
      "count_submission (shown command e) ?tr0 = (err, tr)"
      using Cons c by (simp_all add: shown_def truncate_stacktraces_fields count_submission_truncate)
    have unf: "read_submission_entry command registry i e st =
      (if filter_stop command \<and> stop (shown command e)
         then (None, emit (Log INFO (SkippingStopped i)) st)
         else case crashes (shown command e) of
           [] \<Rightarrow> (Some IndexError, st)
         | c0 # _ \<Rightarrow>
           (let tid = target_task_id (target (traced_crash (crash c0)))
            in case registry tid of
                 None \<Rightarrow> (None, emit (Log ERROR (TaskNotFound tid)) st)
               | Some task \<Rightarrow>
                 if rs_task_id command \<noteq> [] \<and> tid \<noteq> rs_task_id command
                 then (None, emit (Log INFO (SkippingTaskNot i tid (rs_task_id command))) st)
                 else
                   (let tr0 = (case map_of (result st) tid of
                                 None \<Rightarrow> new_TaskResult tid task
                               | Some tr \<Rightarrow> tr)
                    in case count_submission (shown command e) tr0 of
                         (Some e, tr) \<Rightarrow>
                           (Some e, st\<lparr>result := AList.update tid tr (result st)\<rparr>)
                       | (None, tr) \<Rightarrow>
                           (None, emit (PrintSubmission i (shown command e))
                                    (st\<lparr>result := AList.update tid tr (result st)\<rparr>)))))"
      unfolding read_submission_entry_def shown_def Let_def ..
    have tr: "snd (count_submission e ?tr0) = tr" using c by simp
    show ?thesis
    proof (cases "filter_stop command \<and> stop e")
      case True
      then show ?thesis by (simp add: unf sh)
    next
      case False
      then have nostop: "(filter_stop command \<and> stop e) = False" by simp
      show ?thesis
      proof (cases "rs_task_id command \<noteq> [] \<and> ?tid \<noteq> rs_task_id command")
        case True
        with Cons Some show ?thesis
          by (simp add: unf sh(1,2) truncate_crash_fields Let_def nostop)
      next
        case False
        then have same: "(rs_task_id command \<noteq> [] \<and> ?tid \<noteq> rs_task_id command) = False"
          by simp
        from Cons Some show ?thesis
          by (simp add: unf sh truncate_crash_fields Let_def tr err nostop same)
      qed
    qed
  qed
qed






lemma foldl_present:
  "foldl (\<lambda>a b. True) a (map (\<lambda>e. True) xs) = (a \<or> xs \<noteq> [])"
  by (induction xs arbitrary: a) simp_all










lemma read_submission_step_decoded:
  "FromString raw = Some e \<Longrightarrow>
   read_submission_step command FromString registry i raw st =
     (case read_submission_entry command registry i e st of
        (Some err, st') \<Rightarrow> emit (Log ERROR (FailedToParse i err)) st'
      | (None, st') \<Rightarrow> st')"
  by (simp add: read_submission_step_def read_submission_body_def)

lemma read_submission_step_corrupt:
  "FromString raw = None \<Longrightarrow>
   read_submission_step command FromString registry i raw st =
     emit (Log ERROR (FailedToParse i DecodeError)) st"
  by (simp add: read_submission_step_def read_submission_body_def)

lemma read_submission_entry_out:
  "out (case read_submission_entry command registry i e st of
          (Some err, st') \<Rightarrow> emit (Log ERROR (FailedToParse i err)) st'
        | (None, st') \<Rightarrow> st') =
   out st @
   out (case read_submission_entry command registry i e \<lparr>result = [], out = []\<rparr> of
          (Some err, st') \<Rightarrow> emit (Log ERROR (FailedToParse i err)) st'
        | (None, st') \<Rightarrow> st')"
  by (auto simp: read_submission_entry_flat emit_def split: list.splits option.splits)

lemma read_submission_step_out:
  "out (read_submission_step command FromString registry i raw st) =
   out st @ read_events command FromString registry i raw"
proof (cases "FromString raw")
  case None
  then show ?thesis by (simp add: read_events_def read_submission_step_corrupt emit_def)
next
  case (Some e)
  have step: "\<And>st. read_submission_step command FromString registry i raw st =
     (case read_submission_entry command registry i e st of
        (Some err, st') \<Rightarrow> emit (Log ERROR (FailedToParse i err)) st'
      | (None, st') \<Rightarrow> st')"
    using Some by (rule read_submission_step_decoded)
  show ?thesis
    unfolding read_events_def step by (rule read_submission_entry_out)
qed

lemma read_submissions_loop_out:
  "out (read_submissions_loop command FromString registry i raws st) =
   out st @ concat (map (\<lambda>(k, raw). read_events command FromString registry k raw) (enumerate i raws))"
  by (induction raws arbitrary: i st) (simp_all add: read_submission_step_out)

lemma read_events_corrupt:
  "FromString raw = None \<Longrightarrow>
   read_events command FromString registry i raw = [Log ERROR (FailedToParse i DecodeError)]"
  by (simp add: read_events_def read_submission_step_corrupt emit_def)

lemma read_events_decoded:
  "FromString raw = Some e \<Longrightarrow>
   read_events command FromString registry i raw =
     (if filter_stop command \<and> stop e then [Log INFO (SkippingStopped i)]
      else case crashes e of
        [] \<Rightarrow> [Log ERROR (FailedToParse i IndexError)]
      | c0 # _ \<Rightarrow>
        (case registry (target_task_id (target (traced_crash (crash c0)))) of
           None \<Rightarrow> [Log ERROR (TaskNotFound (target_task_id (target (traced_crash (crash c0)))))]
         | Some task \<Rightarrow>
           if rs_task_id command \<noteq> []
              \<and> target_task_id (target (traced_crash (crash c0))) \<noteq> rs_task_id command
           then [Log INFO (SkippingTaskNot i (target_task_id (target (traced_crash (crash c0))))
                             (rs_task_id command))]
           else if first_passed_patch e \<noteq> None \<and> first_passed_crash e = None
           then [Log ERROR (FailedToParse i AssertionError)]
           else [PrintSubmission i (shown command e)]))"
  by (auto simp: read_events_def read_submission_step_decoded read_submission_entry_flat emit_def
        split: list.splits option.splits)





lemma decodable_set:
  "(e \<in> set (decodable FromString raws)) = (\<exists>raw\<in>set raws. FromString raw = Some e)"
  by (induction raws) (auto simp: decodable_def map_filter_simps split: option.splits)

lemma read_submission_entry_error:
  "fst (read_submission_entry command registry i e st) = Some AssertionError \<Longrightarrow>
   first_passed_patch e \<noteq> None \<and> first_passed_crash e = None"
  by (simp add: read_submission_entry_flat split: if_splits list.splits option.splits)

lemma read_submission_entry_no_error:
  "first_passed_patch e \<noteq> None \<Longrightarrow> first_passed_crash e \<noteq> None \<Longrightarrow>
   fst (read_submission_entry command registry i e st) = None"
proof -
  assume p: "first_passed_patch e \<noteq> None" and c: "first_passed_crash e \<noteq> None"
  from c have "crashes e \<noteq> []" by (auto simp: first_passed_crash_def)
  then obtain c0 cs where cs: "crashes e = c0 # cs" by (cases "crashes e") auto
  from c have nf: "(first_passed_patch e \<noteq> None \<and> first_passed_crash e = None) = False" by simp
  show ?thesis
    unfolding read_submission_entry_flat cs nf
    by (simp split: option.splits)
qed

lemma read_events_no_assertion:
  assumes "\<forall>e. FromString raw = Some e \<longrightarrow>
             (first_passed_patch e \<noteq> None \<longrightarrow> first_passed_crash e \<noteq> None)"
  shows "Log ERROR (FailedToParse j AssertionError) \<notin> set (read_events command FromString registry i raw)"
proof (cases "FromString raw")
  case None
  then show ?thesis by (simp add: read_events_corrupt)
next
  case (Some e)
  with assms have nf: "(first_passed_patch e \<noteq> None \<and> first_passed_crash e = None) = False"
    by auto
  have ev: "read_events command FromString registry i raw =
     (if filter_stop command \<and> stop e then [Log INFO (SkippingStopped i)]
      else case crashes e of
        [] \<Rightarrow> [Log ERROR (FailedToParse i IndexError)]
      | c0 # _ \<Rightarrow>
        (case registry (target_task_id (target (traced_crash (crash c0)))) of
           None \<Rightarrow> [Log ERROR (TaskNotFound (target_task_id (target (traced_crash (crash c0)))))]
         | Some task \<Rightarrow>
           if rs_task_id command \<noteq> []
              \<and> target_task_id (target (traced_crash (crash c0))) \<noteq> rs_task_id command
           then [Log INFO (SkippingTaskNot i (target_task_id (target (traced_crash (crash c0))))
                             (rs_task_id command))]
           else if first_passed_patch e \<noteq> None \<and> first_passed_crash e = None
           then [Log ERROR (FailedToParse i AssertionError)]
           else [PrintSubmission i (shown command e)]))"
    using Some by (rule read_events_decoded)
  show ?thesis
    unfolding ev nf
    by (simp split: list.splits option.splits)
qed

lemma read_submissions_log_error:
  "Log ERROR m \<in> set (out (read_submissions command FromString registry raws)) \<Longrightarrow>
   \<exists>k raw. (k, raw) \<in> set (enumerate 0 raws)
     \<and> Log ERROR m \<in> set (read_events command FromString registry k raw)"
  by (cases "raws = []") (auto simp: read_submissions_def Let_def read_submissions_loop_out)

lemma read_submissions_events_in:
  "k < length raws \<Longrightarrow> ev \<in> set (read_events command FromString registry k (raws ! k)) \<Longrightarrow>
   ev \<in> set (out (read_submissions command FromString registry raws))"
proof -
  assume k: "k < length raws" and ev: "ev \<in> set (read_events command FromString registry k (raws ! k))"
  from k have "(k, raws ! k) \<in> set (enumerate 0 raws)" by (simp add: in_set_enumerate_eq)
  with ev have "ev \<in> set (concat (map (\<lambda>(k, raw). read_events command FromString registry k raw)
                                   (enumerate 0 raws)))"
    by auto
  moreover from k have "raws \<noteq> []" by auto
  ultimately show ?thesis
    by (simp add: read_submissions_def Let_def read_submissions_loop_out)
qed

text \<open>
  Claim C8: when every stored record that has a patch with result PASSED also has a
  crash with result PASSED, no turn of the loop logs an assertion failure, the body
  never raises \<open>AssertionError\<close> on a stored record, and on a record with a PASSED
  patch it raises nothing at all.
\<close>

theorem read_submissions_assertion_holds:
  assumes "\<forall>e\<in>set (decodable FromString raw_submissions).
             (\<exists>p\<in>set (patches e). patch_result p = PASSED)
               \<longrightarrow> (\<exists>c\<in>set (crashes e). crash_result c = PASSED)"
  shows "(\<forall>i. Log ERROR (FailedToParse i AssertionError)
               \<notin> set (out (read_submissions command FromString registry raw_submissions)))
    \<and> (\<forall>e\<in>set (decodable FromString raw_submissions). \<forall>i st.
          fst (read_submission_entry command registry i e st) \<noteq> Some AssertionError
          \<and> ((\<exists>p\<in>set (patches e). patch_result p = PASSED)
                \<longrightarrow> fst (read_submission_entry command registry i e st) = None))"
proof (intro conjI allI ballI)
  fix i
  show "Log ERROR (FailedToParse i AssertionError)
          \<notin> set (out (read_submissions command FromString registry raw_submissions))"
  proof
    assume "Log ERROR (FailedToParse i AssertionError)
              \<in> set (out (read_submissions command FromString registry raw_submissions))"
    from read_submissions_log_error [OF this]
    obtain k raw where kr: "(k, raw) \<in> set (enumerate 0 raw_submissions)"
      and ev: "Log ERROR (FailedToParse i AssertionError)
                 \<in> set (read_events command FromString registry k raw)"
      by blast
    from kr have raw: "raw \<in> set raw_submissions" by (auto simp: in_set_enumerate_eq)
    have "\<forall>e. FromString raw = Some e \<longrightarrow>
             (first_passed_patch e \<noteq> None \<longrightarrow> first_passed_crash e \<noteq> None)"
    proof (intro allI impI)
      fix e assume "FromString raw = Some e" and p: "first_passed_patch e \<noteq> None"
      with raw have "e \<in> set (decodable FromString raw_submissions)"
        by (auto simp: decodable_set)
      with assms p show "first_passed_crash e \<noteq> None"
        by (simp add: first_passed_patch_None first_passed_crash_None)
    qed
    then have "Log ERROR (FailedToParse i AssertionError)
                 \<notin> set (read_events command FromString registry k raw)"
      by (rule read_events_no_assertion)
    with ev show False by blast
  qed
next
  fix e i st
  assume e: "e \<in> set (decodable FromString raw_submissions)"
  with assms have pre: "first_passed_patch e \<noteq> None \<longrightarrow> first_passed_crash e \<noteq> None"
    by (simp add: first_passed_patch_None first_passed_crash_None)
  show "fst (read_submission_entry command registry i e st) \<noteq> Some AssertionError"
    using read_submission_entry_error [of command registry i e st] pre by blast
  show "(\<exists>p\<in>set (patches e). patch_result p = PASSED)
          \<longrightarrow> fst (read_submission_entry command registry i e st) = None"
  proof
    assume "\<exists>p\<in>set (patches e). patch_result p = PASSED"
    then have p: "first_passed_patch e \<noteq> None" by (simp add: first_passed_patch_None)
    with pre have "first_passed_crash e \<noteq> None" by simp
    with p show "fst (read_submission_entry command registry i e st) = None"
      by (rule read_submission_entry_no_error)
  qed
qed


lemma sample_fields:
  "crashes (sample_entry cs ps stopped) = cs"
  "patches (sample_entry cs ps stopped) = ps"
  "bundles (sample_entry cs ps stopped) = []"
  "stop (sample_entry cs ps stopped) = stopped"
  "crash_result (sample_crash tid trace token pov r) = r"
  "competition_pov_id (sample_crash tid trace token pov r) = pov"
  "patch_result (sample_patch diff r) = r"
  "patch (sample_patch diff r) = diff"
  by (simp_all add: sample_entry_def sample_crash_def sample_patch_def)



theorem read_submissions_assertion_holds_witness:
  "decodable id
     [Some (sample_entry [sample_crash ''T1'' ''trace'' ''tok1'' ''pov-1'' PASSED]
              [sample_patch ''diff'' FAILED] False),
      None,
      Some (sample_entry [sample_crash ''T1'' ''trace'' ''tok2'' ''pov-2'' PASSED]
              [sample_patch [] NONE, sample_patch ''diff'' PASSED] False)]
   = [sample_entry [sample_crash ''T1'' ''trace'' ''tok1'' ''pov-1'' PASSED]
        [sample_patch ''diff'' FAILED] False,
      sample_entry [sample_crash ''T1'' ''trace'' ''tok2'' ''pov-2'' PASSED]
        [sample_patch [] NONE, sample_patch ''diff'' PASSED] False]
   \<and> Log ERROR (FailedToParse 2 AssertionError)
       \<notin> set (out (read_submissions sample_read id sample_registry
            [Some (sample_entry [sample_crash ''T1'' ''trace'' ''tok1'' ''pov-1'' PASSED]
                     [sample_patch ''diff'' FAILED] False),
             None,
             Some (sample_entry [sample_crash ''T1'' ''trace'' ''tok2'' ''pov-2'' PASSED]
                     [sample_patch [] NONE, sample_patch ''diff'' PASSED] False)]))
   \<and> fst (read_submission_entry sample_read sample_registry 2
            (sample_entry [sample_crash ''T1'' ''trace'' ''tok2'' ''pov-2'' PASSED]
               [sample_patch [] NONE, sample_patch ''diff'' PASSED] False) rs_empty) = None"
proof -
  let ?a = "sample_entry [sample_crash ''T1'' ''trace'' ''tok1'' ''pov-1'' PASSED]
                 [sample_patch ''diff'' FAILED] False"
  let ?b = "sample_entry [sample_crash ''T1'' ''trace'' ''tok2'' ''pov-2'' PASSED]
                 [sample_patch [] NONE, sample_patch ''diff'' PASSED] False"
  have d: "decodable id [Some ?a, None, Some ?b] = [?a, ?b]"
    by (simp add: decodable_def map_filter_simps)
  have hyp: "\<forall>e\<in>set (decodable id [Some ?a, None, Some ?b]).
               (\<exists>p\<in>set (patches e). patch_result p = PASSED)
                 \<longrightarrow> (\<exists>c\<in>set (crashes e). crash_result c = PASSED)"
    by (simp add: d sample_fields)
  from read_submissions_assertion_holds [OF hyp, of sample_read sample_registry] d
  show ?thesis by (simp add: sample_fields)
qed

end
